theory Spec2Isabelle
  imports Main
begin

section \<open>Input validation of the hookify plugin (utils/validation.py)\<close>

text \<open>
  The text a validator receives is a Python \<open>str\<close>: a list of code points, the
  natural numbers below 0x110000, so \<open>length\<close> is Python's \<open>len\<close>. The
  functions are defined on every list of numbers; a number that is no code point is
  neither a space nor a word character. \<open>py s\<close> is the \<open>str\<close> made of the
  characters of the literal \<open>s\<close>. The fixed texts of the program (field names,
  messages, severities) are ASCII and are written as Isabelle strings.
\<close>

type_synonym codepoint = nat

type_synonym pystr = "codepoint list"

definition py :: "string \<Rightarrow> pystr" where
  "py s = map of_char s"

subsection \<open>The ValidationError dataclass\<close>

record ValidationError =
  field :: string
  message :: string
  severity :: string

subsection \<open>Class constants of InputValidator\<close>

definition MAX_REGEX_LENGTH :: nat where
  "MAX_REGEX_LENGTH = 500"

definition MAX_COMMAND_LENGTH :: nat where
  "MAX_COMMAND_LENGTH = 10000"

definition MAX_FILE_PATH_LENGTH :: nat where
  "MAX_FILE_PATH_LENGTH = 4096"

definition MAX_TEXT_LENGTH :: nat where
  "MAX_TEXT_LENGTH = 1000000"

subsection \<open>String primitives\<close>

text \<open>Python's \<open>s.startswith(p)\<close>.\<close>

fun startswith :: "pystr \<Rightarrow> pystr \<Rightarrow> bool" where
  "startswith s [] = True"
| "startswith [] (p # ps) = False"
| "startswith (c # s) (p # ps) = (c = p \<and> startswith s ps)"

text \<open>Python's \<open>sub in s\<close> on strings: \<open>sub\<close> starts at some position of \<open>s\<close>.\<close>

fun contains :: "pystr \<Rightarrow> pystr \<Rightarrow> bool" where
  "contains [] sub = startswith [] sub"
| "contains (c # s) sub = (startswith (c # s) sub \<or> contains s sub)"

text \<open>The decimal rendering of a number inside an f-string.\<close>

definition digit_char :: "nat \<Rightarrow> char" where
  "digit_char d = ''0123456789'' ! d"

function str_of_nat :: "nat \<Rightarrow> string" where
  "str_of_nat n = (if n < 10 then [digit_char n] else str_of_nat (n div 10) @ [digit_char (n mod 10)])"
  by pat_completeness auto
termination
  by (relation "measure (\<lambda>n. n)") auto

declare str_of_nat.simps [simp del]

subsection \<open>validate\_file\_path\<close>

definition validate_file_path :: "pystr \<Rightarrow> ValidationError list" where
  "validate_file_path path =
     (if path = [] then
        [\<lparr>field = ''file_path'', message = ''File path cannot be empty'', severity = ''error''\<rparr>]
      else
        (if length path > MAX_FILE_PATH_LENGTH then
           [\<lparr>field = ''file_path'',
             message = ''File path exceeds maximum length of '' @ str_of_nat MAX_FILE_PATH_LENGTH,
             severity = ''error''\<rparr>]
         else []) @
        (if contains path (py ''..'') then
           [\<lparr>field = ''file_path'', message = ''Path traversal detected (..)'', severity = ''error''\<rparr>]
         else []) @
        (if startswith path (py ''/'') \<and> \<not> startswith path (py ''/workspace'') then
           [\<lparr>field = ''file_path'', message = ''Absolute path outside workspace'',
             severity = ''warning''\<rparr>]
         else []))"

subsection \<open>validate\_text\_length\<close>

text \<open>The source gives \<open>field_name\<close> the default \<open>"text"\<close>; here it is always passed.\<close>

definition validate_text_length :: "pystr \<Rightarrow> string \<Rightarrow> ValidationError list" where
  "validate_text_length text field_name =
     (if length text > MAX_TEXT_LENGTH then
        [\<lparr>field = field_name,
          message = ''Text exceeds maximum length of '' @ str_of_nat MAX_TEXT_LENGTH,
          severity = ''error''\<rparr>]
      else [])"

subsection \<open>Regular expressions as used by validate\_bash\_command\<close>

text \<open>
  The dangerous-pattern table uses literals, the classes \<^verbatim>\<open>\s\<close> and \<^verbatim>\<open>.\<close>,
  the quantifiers \<^verbatim>\<open>+\<close> and \<^verbatim>\<open>*\<close> on a single class, and the word
  boundary \<^verbatim>\<open>\b\<close>. A pattern is the sequence of its items.
\<close>

datatype atom = Lit char | Space | AnyChar

datatype item = One atom | Plus atom | Star atom | WordB

type_synonym regex = "item list"

text \<open>
  The character classes of Python's \<open>re\<close> on \<open>str\<close> patterns (Unicode mode), as
  CPython 3.11 has them (Unicode 14.0): \<^verbatim>\<open>\s\<close> is \<open>str.isspace\<close>,
  \<^verbatim>\<open>\w\<close> is \<open>str.isalnum\<close> or the underscore. Below 256 the word
  characters are written out; above, they are the ranges of the table, in ascending
  order.
\<close>

definition is_space :: "codepoint \<Rightarrow> bool" where
  "is_space n =
     ((9 \<le> n \<and> n \<le> 13) \<or> (28 \<le> n \<and> n \<le> 32) \<or> n = 133 \<or> n = 160 \<or>
      n = 0x1680 \<or> (0x2000 \<le> n \<and> n \<le> 0x200A) \<or> n = 0x2028 \<or> n = 0x2029 \<or>
      n = 0x202F \<or> n = 0x205F \<or> n = 0x3000)"

fun in_ranges :: "nat \<Rightarrow> (nat \<times> nat) list \<Rightarrow> bool" where
  "in_ranges n [] = False"
| "in_ranges n ((lo, hi) # rs) =
     (if n < lo then False else if n \<le> hi then True else in_ranges n rs)"

definition word_ranges_wide :: "(nat \<times> nat) list" where
  "word_ranges_wide =
     [
      (0x100, 0x2C1), (0x2C6, 0x2D1), (0x2E0, 0x2E4), (0x2EC, 0x2EC), (0x2EE, 0x2EE),
      (0x370, 0x374), (0x376, 0x377), (0x37A, 0x37D), (0x37F, 0x37F), (0x386, 0x386),
      (0x388, 0x38A), (0x38C, 0x38C), (0x38E, 0x3A1), (0x3A3, 0x3F5), (0x3F7, 0x481),
      (0x48A, 0x52F), (0x531, 0x556), (0x559, 0x559), (0x560, 0x588), (0x5D0, 0x5EA),
      (0x5EF, 0x5F2), (0x620, 0x64A), (0x660, 0x669), (0x66E, 0x66F), (0x671, 0x6D3),
      (0x6D5, 0x6D5), (0x6E5, 0x6E6), (0x6EE, 0x6FC), (0x6FF, 0x6FF), (0x710, 0x710),
      (0x712, 0x72F), (0x74D, 0x7A5), (0x7B1, 0x7B1), (0x7C0, 0x7EA), (0x7F4, 0x7F5),
      (0x7FA, 0x7FA), (0x800, 0x815), (0x81A, 0x81A), (0x824, 0x824), (0x828, 0x828),
      (0x840, 0x858), (0x860, 0x86A), (0x870, 0x887), (0x889, 0x88E), (0x8A0, 0x8C9),
      (0x904, 0x939), (0x93D, 0x93D), (0x950, 0x950), (0x958, 0x961), (0x966, 0x96F),
      (0x971, 0x980), (0x985, 0x98C), (0x98F, 0x990), (0x993, 0x9A8), (0x9AA, 0x9B0),
      (0x9B2, 0x9B2), (0x9B6, 0x9B9), (0x9BD, 0x9BD), (0x9CE, 0x9CE), (0x9DC, 0x9DD),
      (0x9DF, 0x9E1), (0x9E6, 0x9F1), (0x9F4, 0x9F9), (0x9FC, 0x9FC), (0xA05, 0xA0A),
      (0xA0F, 0xA10), (0xA13, 0xA28), (0xA2A, 0xA30), (0xA32, 0xA33), (0xA35, 0xA36),
      (0xA38, 0xA39), (0xA59, 0xA5C), (0xA5E, 0xA5E), (0xA66, 0xA6F), (0xA72, 0xA74),
      (0xA85, 0xA8D), (0xA8F, 0xA91), (0xA93, 0xAA8), (0xAAA, 0xAB0), (0xAB2, 0xAB3),
      (0xAB5, 0xAB9), (0xABD, 0xABD), (0xAD0, 0xAD0), (0xAE0, 0xAE1), (0xAE6, 0xAEF),
      (0xAF9, 0xAF9), (0xB05, 0xB0C), (0xB0F, 0xB10), (0xB13, 0xB28), (0xB2A, 0xB30),
      (0xB32, 0xB33), (0xB35, 0xB39), (0xB3D, 0xB3D), (0xB5C, 0xB5D), (0xB5F, 0xB61),
      (0xB66, 0xB6F), (0xB71, 0xB77), (0xB83, 0xB83), (0xB85, 0xB8A), (0xB8E, 0xB90),
      (0xB92, 0xB95), (0xB99, 0xB9A), (0xB9C, 0xB9C), (0xB9E, 0xB9F), (0xBA3, 0xBA4),
      (0xBA8, 0xBAA), (0xBAE, 0xBB9), (0xBD0, 0xBD0), (0xBE6, 0xBF2), (0xC05, 0xC0C),
      (0xC0E, 0xC10), (0xC12, 0xC28), (0xC2A, 0xC39), (0xC3D, 0xC3D), (0xC58, 0xC5A),
      (0xC5D, 0xC5D), (0xC60, 0xC61), (0xC66, 0xC6F), (0xC78, 0xC7E), (0xC80, 0xC80),
      (0xC85, 0xC8C), (0xC8E, 0xC90), (0xC92, 0xCA8), (0xCAA, 0xCB3), (0xCB5, 0xCB9),
      (0xCBD, 0xCBD), (0xCDD, 0xCDE), (0xCE0, 0xCE1), (0xCE6, 0xCEF), (0xCF1, 0xCF2),
      (0xD04, 0xD0C), (0xD0E, 0xD10), (0xD12, 0xD3A), (0xD3D, 0xD3D), (0xD4E, 0xD4E),
      (0xD54, 0xD56), (0xD58, 0xD61), (0xD66, 0xD78), (0xD7A, 0xD7F), (0xD85, 0xD96),
      (0xD9A, 0xDB1), (0xDB3, 0xDBB), (0xDBD, 0xDBD), (0xDC0, 0xDC6), (0xDE6, 0xDEF),
      (0xE01, 0xE30), (0xE32, 0xE33), (0xE40, 0xE46), (0xE50, 0xE59), (0xE81, 0xE82),
      (0xE84, 0xE84), (0xE86, 0xE8A), (0xE8C, 0xEA3), (0xEA5, 0xEA5), (0xEA7, 0xEB0),
      (0xEB2, 0xEB3), (0xEBD, 0xEBD), (0xEC0, 0xEC4), (0xEC6, 0xEC6), (0xED0, 0xED9),
      (0xEDC, 0xEDF), (0xF00, 0xF00), (0xF20, 0xF33), (0xF40, 0xF47), (0xF49, 0xF6C),
      (0xF88, 0xF8C), (0x1000, 0x102A), (0x103F, 0x1049), (0x1050, 0x1055), (0x105A, 0x105D),
      (0x1061, 0x1061), (0x1065, 0x1066), (0x106E, 0x1070), (0x1075, 0x1081), (0x108E, 0x108E),
      (0x1090, 0x1099), (0x10A0, 0x10C5), (0x10C7, 0x10C7), (0x10CD, 0x10CD), (0x10D0, 0x10FA),
      (0x10FC, 0x1248), (0x124A, 0x124D), (0x1250, 0x1256), (0x1258, 0x1258), (0x125A, 0x125D),
      (0x1260, 0x1288), (0x128A, 0x128D), (0x1290, 0x12B0), (0x12B2, 0x12B5), (0x12B8, 0x12BE),
      (0x12C0, 0x12C0), (0x12C2, 0x12C5), (0x12C8, 0x12D6), (0x12D8, 0x1310), (0x1312, 0x1315),
      (0x1318, 0x135A), (0x1369, 0x137C), (0x1380, 0x138F), (0x13A0, 0x13F5), (0x13F8, 0x13FD),
      (0x1401, 0x166C), (0x166F, 0x167F), (0x1681, 0x169A), (0x16A0, 0x16EA), (0x16EE, 0x16F8),
      (0x1700, 0x1711), (0x171F, 0x1731), (0x1740, 0x1751), (0x1760, 0x176C), (0x176E, 0x1770),
      (0x1780, 0x17B3), (0x17D7, 0x17D7), (0x17DC, 0x17DC), (0x17E0, 0x17E9), (0x17F0, 0x17F9),
      (0x1810, 0x1819), (0x1820, 0x1878), (0x1880, 0x1884), (0x1887, 0x18A8), (0x18AA, 0x18AA),
      (0x18B0, 0x18F5), (0x1900, 0x191E), (0x1946, 0x196D), (0x1970, 0x1974), (0x1980, 0x19AB),
      (0x19B0, 0x19C9), (0x19D0, 0x19DA), (0x1A00, 0x1A16), (0x1A20, 0x1A54), (0x1A80, 0x1A89),
      (0x1A90, 0x1A99), (0x1AA7, 0x1AA7), (0x1B05, 0x1B33), (0x1B45, 0x1B4C), (0x1B50, 0x1B59),
      (0x1B83, 0x1BA0), (0x1BAE, 0x1BE5), (0x1C00, 0x1C23), (0x1C40, 0x1C49), (0x1C4D, 0x1C7D),
      (0x1C80, 0x1C88), (0x1C90, 0x1CBA), (0x1CBD, 0x1CBF), (0x1CE9, 0x1CEC), (0x1CEE, 0x1CF3),
      (0x1CF5, 0x1CF6), (0x1CFA, 0x1CFA), (0x1D00, 0x1DBF), (0x1E00, 0x1F15), (0x1F18, 0x1F1D),
      (0x1F20, 0x1F45), (0x1F48, 0x1F4D), (0x1F50, 0x1F57), (0x1F59, 0x1F59), (0x1F5B, 0x1F5B),
      (0x1F5D, 0x1F5D), (0x1F5F, 0x1F7D), (0x1F80, 0x1FB4), (0x1FB6, 0x1FBC), (0x1FBE, 0x1FBE),
      (0x1FC2, 0x1FC4), (0x1FC6, 0x1FCC), (0x1FD0, 0x1FD3), (0x1FD6, 0x1FDB), (0x1FE0, 0x1FEC),
      (0x1FF2, 0x1FF4), (0x1FF6, 0x1FFC), (0x2070, 0x2071), (0x2074, 0x2079), (0x207F, 0x2089),
      (0x2090, 0x209C), (0x2102, 0x2102), (0x2107, 0x2107), (0x210A, 0x2113), (0x2115, 0x2115),
      (0x2119, 0x211D), (0x2124, 0x2124), (0x2126, 0x2126), (0x2128, 0x2128), (0x212A, 0x212D),
      (0x212F, 0x2139), (0x213C, 0x213F), (0x2145, 0x2149), (0x214E, 0x214E), (0x2150, 0x2189),
      (0x2460, 0x249B), (0x24EA, 0x24FF), (0x2776, 0x2793), (0x2C00, 0x2CE4), (0x2CEB, 0x2CEE),
      (0x2CF2, 0x2CF3), (0x2CFD, 0x2CFD), (0x2D00, 0x2D25), (0x2D27, 0x2D27), (0x2D2D, 0x2D2D),
      (0x2D30, 0x2D67), (0x2D6F, 0x2D6F), (0x2D80, 0x2D96), (0x2DA0, 0x2DA6), (0x2DA8, 0x2DAE),
      (0x2DB0, 0x2DB6), (0x2DB8, 0x2DBE), (0x2DC0, 0x2DC6), (0x2DC8, 0x2DCE), (0x2DD0, 0x2DD6),
      (0x2DD8, 0x2DDE), (0x2E2F, 0x2E2F), (0x3005, 0x3007), (0x3021, 0x3029), (0x3031, 0x3035),
      (0x3038, 0x303C), (0x3041, 0x3096), (0x309D, 0x309F), (0x30A1, 0x30FA), (0x30FC, 0x30FF),
      (0x3105, 0x312F), (0x3131, 0x318E), (0x3192, 0x3195), (0x31A0, 0x31BF), (0x31F0, 0x31FF),
      (0x3220, 0x3229), (0x3248, 0x324F), (0x3251, 0x325F), (0x3280, 0x3289), (0x32B1, 0x32BF),
      (0x3400, 0x4DBF), (0x4E00, 0xA48C), (0xA4D0, 0xA4FD), (0xA500, 0xA60C), (0xA610, 0xA62B),
      (0xA640, 0xA66E), (0xA67F, 0xA69D), (0xA6A0, 0xA6EF), (0xA717, 0xA71F), (0xA722, 0xA788),
      (0xA78B, 0xA7CA), (0xA7D0, 0xA7D1), (0xA7D3, 0xA7D3), (0xA7D5, 0xA7D9), (0xA7F2, 0xA801),
      (0xA803, 0xA805), (0xA807, 0xA80A), (0xA80C, 0xA822), (0xA830, 0xA835), (0xA840, 0xA873),
      (0xA882, 0xA8B3), (0xA8D0, 0xA8D9), (0xA8F2, 0xA8F7), (0xA8FB, 0xA8FB), (0xA8FD, 0xA8FE),
      (0xA900, 0xA925), (0xA930, 0xA946), (0xA960, 0xA97C), (0xA984, 0xA9B2), (0xA9CF, 0xA9D9),
      (0xA9E0, 0xA9E4), (0xA9E6, 0xA9FE), (0xAA00, 0xAA28), (0xAA40, 0xAA42), (0xAA44, 0xAA4B),
      (0xAA50, 0xAA59), (0xAA60, 0xAA76), (0xAA7A, 0xAA7A), (0xAA7E, 0xAAAF), (0xAAB1, 0xAAB1),
      (0xAAB5, 0xAAB6), (0xAAB9, 0xAABD), (0xAAC0, 0xAAC0), (0xAAC2, 0xAAC2), (0xAADB, 0xAADD),
      (0xAAE0, 0xAAEA), (0xAAF2, 0xAAF4), (0xAB01, 0xAB06), (0xAB09, 0xAB0E), (0xAB11, 0xAB16),
      (0xAB20, 0xAB26), (0xAB28, 0xAB2E), (0xAB30, 0xAB5A), (0xAB5C, 0xAB69), (0xAB70, 0xABE2),
      (0xABF0, 0xABF9), (0xAC00, 0xD7A3), (0xD7B0, 0xD7C6), (0xD7CB, 0xD7FB), (0xF900, 0xFA6D),
      (0xFA70, 0xFAD9), (0xFB00, 0xFB06), (0xFB13, 0xFB17), (0xFB1D, 0xFB1D), (0xFB1F, 0xFB28),
      (0xFB2A, 0xFB36), (0xFB38, 0xFB3C), (0xFB3E, 0xFB3E), (0xFB40, 0xFB41), (0xFB43, 0xFB44),
      (0xFB46, 0xFBB1), (0xFBD3, 0xFD3D), (0xFD50, 0xFD8F), (0xFD92, 0xFDC7), (0xFDF0, 0xFDFB),
      (0xFE70, 0xFE74), (0xFE76, 0xFEFC), (0xFF10, 0xFF19), (0xFF21, 0xFF3A), (0xFF41, 0xFF5A),
      (0xFF66, 0xFFBE), (0xFFC2, 0xFFC7), (0xFFCA, 0xFFCF), (0xFFD2, 0xFFD7), (0xFFDA, 0xFFDC),
      (0x10000, 0x1000B), (0x1000D, 0x10026), (0x10028, 0x1003A), (0x1003C, 0x1003D), (0x1003F, 0x1004D),
      (0x10050, 0x1005D), (0x10080, 0x100FA), (0x10107, 0x10133), (0x10140, 0x10178), (0x1018A, 0x1018B),
      (0x10280, 0x1029C), (0x102A0, 0x102D0), (0x102E1, 0x102FB), (0x10300, 0x10323), (0x1032D, 0x1034A),
      (0x10350, 0x10375), (0x10380, 0x1039D), (0x103A0, 0x103C3), (0x103C8, 0x103CF), (0x103D1, 0x103D5),
      (0x10400, 0x1049D), (0x104A0, 0x104A9), (0x104B0, 0x104D3), (0x104D8, 0x104FB), (0x10500, 0x10527),
      (0x10530, 0x10563), (0x10570, 0x1057A), (0x1057C, 0x1058A), (0x1058C, 0x10592), (0x10594, 0x10595),
      (0x10597, 0x105A1), (0x105A3, 0x105B1), (0x105B3, 0x105B9), (0x105BB, 0x105BC), (0x10600, 0x10736),
      (0x10740, 0x10755), (0x10760, 0x10767), (0x10780, 0x10785), (0x10787, 0x107B0), (0x107B2, 0x107BA),
      (0x10800, 0x10805), (0x10808, 0x10808), (0x1080A, 0x10835), (0x10837, 0x10838), (0x1083C, 0x1083C),
      (0x1083F, 0x10855), (0x10858, 0x10876), (0x10879, 0x1089E), (0x108A7, 0x108AF), (0x108E0, 0x108F2),
      (0x108F4, 0x108F5), (0x108FB, 0x1091B), (0x10920, 0x10939), (0x10980, 0x109B7), (0x109BC, 0x109CF),
      (0x109D2, 0x10A00), (0x10A10, 0x10A13), (0x10A15, 0x10A17), (0x10A19, 0x10A35), (0x10A40, 0x10A48),
      (0x10A60, 0x10A7E), (0x10A80, 0x10A9F), (0x10AC0, 0x10AC7), (0x10AC9, 0x10AE4), (0x10AEB, 0x10AEF),
      (0x10B00, 0x10B35), (0x10B40, 0x10B55), (0x10B58, 0x10B72), (0x10B78, 0x10B91), (0x10BA9, 0x10BAF),
      (0x10C00, 0x10C48), (0x10C80, 0x10CB2), (0x10CC0, 0x10CF2), (0x10CFA, 0x10D23), (0x10D30, 0x10D39),
      (0x10E60, 0x10E7E), (0x10E80, 0x10EA9), (0x10EB0, 0x10EB1), (0x10F00, 0x10F27), (0x10F30, 0x10F45),
      (0x10F51, 0x10F54), (0x10F70, 0x10F81), (0x10FB0, 0x10FCB), (0x10FE0, 0x10FF6), (0x11003, 0x11037),
      (0x11052, 0x1106F), (0x11071, 0x11072), (0x11075, 0x11075), (0x11083, 0x110AF), (0x110D0, 0x110E8),
      (0x110F0, 0x110F9), (0x11103, 0x11126), (0x11136, 0x1113F), (0x11144, 0x11144), (0x11147, 0x11147),
      (0x11150, 0x11172), (0x11176, 0x11176), (0x11183, 0x111B2), (0x111C1, 0x111C4), (0x111D0, 0x111DA),
      (0x111DC, 0x111DC), (0x111E1, 0x111F4), (0x11200, 0x11211), (0x11213, 0x1122B), (0x11280, 0x11286),
      (0x11288, 0x11288), (0x1128A, 0x1128D), (0x1128F, 0x1129D), (0x1129F, 0x112A8), (0x112B0, 0x112DE),
      (0x112F0, 0x112F9), (0x11305, 0x1130C), (0x1130F, 0x11310), (0x11313, 0x11328), (0x1132A, 0x11330),
      (0x11332, 0x11333), (0x11335, 0x11339), (0x1133D, 0x1133D), (0x11350, 0x11350), (0x1135D, 0x11361),
      (0x11400, 0x11434), (0x11447, 0x1144A), (0x11450, 0x11459), (0x1145F, 0x11461), (0x11480, 0x114AF),
      (0x114C4, 0x114C5), (0x114C7, 0x114C7), (0x114D0, 0x114D9), (0x11580, 0x115AE), (0x115D8, 0x115DB),
      (0x11600, 0x1162F), (0x11644, 0x11644), (0x11650, 0x11659), (0x11680, 0x116AA), (0x116B8, 0x116B8),
      (0x116C0, 0x116C9), (0x11700, 0x1171A), (0x11730, 0x1173B), (0x11740, 0x11746), (0x11800, 0x1182B),
      (0x118A0, 0x118F2), (0x118FF, 0x11906), (0x11909, 0x11909), (0x1190C, 0x11913), (0x11915, 0x11916),
      (0x11918, 0x1192F), (0x1193F, 0x1193F), (0x11941, 0x11941), (0x11950, 0x11959), (0x119A0, 0x119A7),
      (0x119AA, 0x119D0), (0x119E1, 0x119E1), (0x119E3, 0x119E3), (0x11A00, 0x11A00), (0x11A0B, 0x11A32),
      (0x11A3A, 0x11A3A), (0x11A50, 0x11A50), (0x11A5C, 0x11A89), (0x11A9D, 0x11A9D), (0x11AB0, 0x11AF8),
      (0x11C00, 0x11C08), (0x11C0A, 0x11C2E), (0x11C40, 0x11C40), (0x11C50, 0x11C6C), (0x11C72, 0x11C8F),
      (0x11D00, 0x11D06), (0x11D08, 0x11D09), (0x11D0B, 0x11D30), (0x11D46, 0x11D46), (0x11D50, 0x11D59),
      (0x11D60, 0x11D65), (0x11D67, 0x11D68), (0x11D6A, 0x11D89), (0x11D98, 0x11D98), (0x11DA0, 0x11DA9),
      (0x11EE0, 0x11EF2), (0x11FB0, 0x11FB0), (0x11FC0, 0x11FD4), (0x12000, 0x12399), (0x12400, 0x1246E),
      (0x12480, 0x12543), (0x12F90, 0x12FF0), (0x13000, 0x1342E), (0x14400, 0x14646), (0x16800, 0x16A38),
      (0x16A40, 0x16A5E), (0x16A60, 0x16A69), (0x16A70, 0x16ABE), (0x16AC0, 0x16AC9), (0x16AD0, 0x16AED),
      (0x16B00, 0x16B2F), (0x16B40, 0x16B43), (0x16B50, 0x16B59), (0x16B5B, 0x16B61), (0x16B63, 0x16B77),
      (0x16B7D, 0x16B8F), (0x16E40, 0x16E96), (0x16F00, 0x16F4A), (0x16F50, 0x16F50), (0x16F93, 0x16F9F),
      (0x16FE0, 0x16FE1), (0x16FE3, 0x16FE3), (0x17000, 0x187F7), (0x18800, 0x18CD5), (0x18D00, 0x18D08),
      (0x1AFF0, 0x1AFF3), (0x1AFF5, 0x1AFFB), (0x1AFFD, 0x1AFFE), (0x1B000, 0x1B122), (0x1B150, 0x1B152),
      (0x1B164, 0x1B167), (0x1B170, 0x1B2FB), (0x1BC00, 0x1BC6A), (0x1BC70, 0x1BC7C), (0x1BC80, 0x1BC88),
      (0x1BC90, 0x1BC99), (0x1D2E0, 0x1D2F3), (0x1D360, 0x1D378), (0x1D400, 0x1D454), (0x1D456, 0x1D49C),
      (0x1D49E, 0x1D49F), (0x1D4A2, 0x1D4A2), (0x1D4A5, 0x1D4A6), (0x1D4A9, 0x1D4AC), (0x1D4AE, 0x1D4B9),
      (0x1D4BB, 0x1D4BB), (0x1D4BD, 0x1D4C3), (0x1D4C5, 0x1D505), (0x1D507, 0x1D50A), (0x1D50D, 0x1D514),
      (0x1D516, 0x1D51C), (0x1D51E, 0x1D539), (0x1D53B, 0x1D53E), (0x1D540, 0x1D544), (0x1D546, 0x1D546),
      (0x1D54A, 0x1D550), (0x1D552, 0x1D6A5), (0x1D6A8, 0x1D6C0), (0x1D6C2, 0x1D6DA), (0x1D6DC, 0x1D6FA),
      (0x1D6FC, 0x1D714), (0x1D716, 0x1D734), (0x1D736, 0x1D74E), (0x1D750, 0x1D76E), (0x1D770, 0x1D788),
      (0x1D78A, 0x1D7A8), (0x1D7AA, 0x1D7C2), (0x1D7C4, 0x1D7CB), (0x1D7CE, 0x1D7FF), (0x1DF00, 0x1DF1E),
      (0x1E100, 0x1E12C), (0x1E137, 0x1E13D), (0x1E140, 0x1E149), (0x1E14E, 0x1E14E), (0x1E290, 0x1E2AD),
      (0x1E2C0, 0x1E2EB), (0x1E2F0, 0x1E2F9), (0x1E7E0, 0x1E7E6), (0x1E7E8, 0x1E7EB), (0x1E7ED, 0x1E7EE),
      (0x1E7F0, 0x1E7FE), (0x1E800, 0x1E8C4), (0x1E8C7, 0x1E8CF), (0x1E900, 0x1E943), (0x1E94B, 0x1E94B),
      (0x1E950, 0x1E959), (0x1EC71, 0x1ECAB), (0x1ECAD, 0x1ECAF), (0x1ECB1, 0x1ECB4), (0x1ED01, 0x1ED2D),
      (0x1ED2F, 0x1ED3D), (0x1EE00, 0x1EE03), (0x1EE05, 0x1EE1F), (0x1EE21, 0x1EE22), (0x1EE24, 0x1EE24),
      (0x1EE27, 0x1EE27), (0x1EE29, 0x1EE32), (0x1EE34, 0x1EE37), (0x1EE39, 0x1EE39), (0x1EE3B, 0x1EE3B),
      (0x1EE42, 0x1EE42), (0x1EE47, 0x1EE47), (0x1EE49, 0x1EE49), (0x1EE4B, 0x1EE4B), (0x1EE4D, 0x1EE4F),
      (0x1EE51, 0x1EE52), (0x1EE54, 0x1EE54), (0x1EE57, 0x1EE57), (0x1EE59, 0x1EE59), (0x1EE5B, 0x1EE5B),
      (0x1EE5D, 0x1EE5D), (0x1EE5F, 0x1EE5F), (0x1EE61, 0x1EE62), (0x1EE64, 0x1EE64), (0x1EE67, 0x1EE6A),
      (0x1EE6C, 0x1EE72), (0x1EE74, 0x1EE77), (0x1EE79, 0x1EE7C), (0x1EE7E, 0x1EE7E), (0x1EE80, 0x1EE89),
      (0x1EE8B, 0x1EE9B), (0x1EEA1, 0x1EEA3), (0x1EEA5, 0x1EEA9), (0x1EEAB, 0x1EEBB), (0x1F100, 0x1F10C),
      (0x1FBF0, 0x1FBF9), (0x20000, 0x2A6DF), (0x2A700, 0x2B738), (0x2B740, 0x2B81D), (0x2B820, 0x2CEA1),
      (0x2CEB0, 0x2EBE0), (0x2F800, 0x2FA1D), (0x30000, 0x3134A)
     ]"

definition is_word :: "codepoint \<Rightarrow> bool" where
  "is_word n =
     (if n < 256 then
        (48 \<le> n \<and> n \<le> 57) \<or> (65 \<le> n \<and> n \<le> 90) \<or> n = 95 \<or> (97 \<le> n \<and> n \<le> 122) \<or>
        n = 170 \<or> n = 178 \<or> n = 179 \<or> n = 181 \<or> n = 185 \<or> n = 186 \<or>
        (188 \<le> n \<and> n \<le> 190) \<or> (192 \<le> n \<and> n \<le> 214) \<or> (216 \<le> n \<and> n \<le> 246) \<or>
        248 \<le> n
      else in_ranges n word_ranges_wide)"

text \<open>
  Lower-casing of the letters below 256 (A to Z, and the capital letters of Latin-1 from
  U+00C0 to U+00DE but the multiplication sign U+00D7); every other number is left as
  it is. With \<open>re.IGNORECASE\<close> the library compares the characters below 256 by
  this form.
\<close>

definition lower_latin1 :: "codepoint \<Rightarrow> codepoint" where
  "lower_latin1 n =
     (if (65 \<le> n \<and> n \<le> 90) \<or> (192 \<le> n \<and> n \<le> 214) \<or> (216 \<le> n \<and> n \<le> 222)
      then n + 32 else n)"



text \<open>
  One character against one atom. The flag is \<open>re.IGNORECASE\<close>. A literal of a
  pattern is a character below 256; with the flag it matches the code points below 256
  with the same lower-case form, and above 256 those that the library folds to it, listed
  by \<open>ignorecase_wide\<close> for the lower-case form of the literal. \<^verbatim>\<open>.\<close>
  matches anything but a newline.
\<close>

definition ignorecase_wide :: "codepoint \<Rightarrow> codepoint list" where
  "ignorecase_wide l =
     (if l = 0x69 then [0x130, 0x131]
      else if l = 0x6B then [0x212A]
      else if l = 0x73 then [0x17F]
      else if l = 0xB5 then [0x39C, 0x3BC]
      else if l = 0xDF then [0x1E9E]
      else if l = 0xE5 then [0x212B]
      else if l = 0xFF then [0x178]
      else [])"

fun atom_ok :: "bool \<Rightarrow> atom \<Rightarrow> codepoint \<Rightarrow> bool" where
  "atom_ok ic (Lit p) c =
     (if ic then
        (if c < 256 then lower_latin1 c = lower_latin1 (of_char p)
         else c \<in> set (ignorecase_wide (lower_latin1 (of_char p))))
      else c = of_char p)"
| "atom_ok ic Space c = is_space c"
| "atom_ok ic AnyChar c = (c \<noteq> 10)"

fun item_weight :: "item \<Rightarrow> nat" where
  "item_weight (Plus a) = 2"
| "item_weight i = 1"

fun next_is_word :: "pystr \<Rightarrow> bool" where
  "next_is_word [] = False"
| "next_is_word (c # s) = is_word c"

text \<open>
  \<open>re_match_here ic r pw s\<close>: the pattern \<open>r\<close> matches a prefix of \<open>s\<close>, where \<open>pw\<close>
  tells whether the character before \<open>s\<close> exists and is a word character (for
  \<^verbatim>\<open>\b\<close>). The search only asks whether some match exists, so the order in which
  the backtracking engine tries the alternatives does not matter.
\<close>

function re_match_here :: "bool \<Rightarrow> regex \<Rightarrow> bool \<Rightarrow> pystr \<Rightarrow> bool" where
  "re_match_here ic [] pw s = True"
| "re_match_here ic (WordB # r) pw s =
     (if pw \<noteq> next_is_word s then re_match_here ic r pw s else False)"
| "re_match_here ic (One a # r) pw [] = False"
| "re_match_here ic (One a # r) pw (c # s) =
     (if atom_ok ic a c then re_match_here ic r (is_word c) s else False)"
| "re_match_here ic (Plus a # r) pw [] = False"
| "re_match_here ic (Plus a # r) pw (c # s) =
     (if atom_ok ic a c then re_match_here ic (Star a # r) (is_word c) s else False)"
| "re_match_here ic (Star a # r) pw [] = re_match_here ic r pw []"
| "re_match_here ic (Star a # r) pw (c # s) =
     (if re_match_here ic r pw (c # s) then True
      else if atom_ok ic a c then re_match_here ic (Star a # r) (is_word c) s
      else False)"
  by pat_completeness auto
termination
  by (relation "measure (\<lambda>(ic, r, pw, s). sum_list (map item_weight r) + length s)") auto

text \<open>\<open>re.search\<close>: a match starting at some position of the string.\<close>

fun search_from :: "bool \<Rightarrow> regex \<Rightarrow> bool \<Rightarrow> pystr \<Rightarrow> bool" where
  "search_from ic r pw [] = re_match_here ic r pw []"
| "search_from ic r pw (c # s) =
     (if re_match_here ic r pw (c # s) then True else search_from ic r (is_word c) s)"

definition re_search :: "bool \<Rightarrow> regex \<Rightarrow> pystr \<Rightarrow> bool" where
  "re_search ic r s = search_from ic r False s"

definition lits :: "string \<Rightarrow> regex" where
  "lits s = map (\<lambda>c. One (Lit c)) s"

subsection \<open>validate\_bash\_command\<close>

text \<open>
  The table of the source, in its order:
  \<^verbatim>\<open>\brm\s+-rf\s+/\<close>, \<^verbatim>\<open>\bchmod\s+777\<close>, \<^verbatim>\<open>\beval\s+\<close>,
  \<^verbatim>\<open>\bcurl\s+.*\|\s*bash\<close>, \<^verbatim>\<open>\bwget\s+.*\|\s*bash\<close>.
\<close>

definition dangerous_patterns :: "(regex \<times> string) list" where
  "dangerous_patterns =
     [(WordB # lits ''rm'' @ [Plus Space] @ lits ''-rf'' @ [Plus Space] @ lits ''/'',
       ''Recursive force delete from root''),
      (WordB # lits ''chmod'' @ [Plus Space] @ lits ''777'',
       ''Overly permissive file permissions''),
      (WordB # lits ''eval'' @ [Plus Space],
       ''Arbitrary code execution via eval''),
      (WordB # lits ''curl'' @ [Plus Space, Star AnyChar] @ lits ''|'' @ [Star Space] @ lits ''bash'',
       ''Piping remote scripts to bash''),
      (WordB # lits ''wget'' @ [Plus Space, Star AnyChar] @ lits ''|'' @ [Star Space] @ lits ''bash'',
       ''Piping remote scripts to bash'')]"

text \<open>The loop over the table, appending one warning per pattern found.\<close>

fun scan_patterns :: "(regex \<times> string) list \<Rightarrow> pystr \<Rightarrow> ValidationError list" where
  "scan_patterns [] command = []"
| "scan_patterns ((pattern, description) # rest) command =
     (if re_search True pattern command then
        [\<lparr>field = ''command'', message = ''Dangerous pattern detected: '' @ description,
          severity = ''warning''\<rparr>]
      else []) @ scan_patterns rest command"

definition validate_bash_command :: "pystr \<Rightarrow> ValidationError list" where
  "validate_bash_command command =
     (if command = [] then []
      else
        (if length command > MAX_COMMAND_LENGTH then
           [\<lparr>field = ''command'',
             message = ''Command exceeds maximum length of '' @ str_of_nat MAX_COMMAND_LENGTH,
             severity = ''error''\<rparr>]
         else []) @
        scan_patterns dangerous_patterns command)"

subsection \<open>Exceptions\<close>

text \<open>
  The exception classes that the code names or that reach it, each with its \<open>str\<close>.
  \<open>OtherException\<close> stands for any other subclass of \<open>Exception\<close>, \<open>NonException\<close>
  for a \<open>BaseException\<close> outside \<open>Exception\<close> (\<open>KeyboardInterrupt\<close>,
  \<open>SystemExit\<close>).
\<close>

datatype exc_class =
  ReError | OverflowError | RecursionError | TypeError | AttributeError
  | JSONDecodeError | FileNotFoundError | PermissionError | OtherException | NonException

datatype exn = Exn (exc_cls: exc_class) (exc_msg: string)

subsection \<open>validate\_regex\_pattern\<close>

text \<open>
  \<open>re.compile\<close> belongs to Python's library, not to this repository: it is a
  parameter, giving for each pattern \<open>None\<close> when it compiles and the exception raised
  otherwise. Only \<open>re.error\<close> is caught by the source; any other exception leaves
  the function (\<open>Inl\<close>).

  The backtracking check searches \<^verbatim>\<open>(\.\*){2,}|\(\.\+\){2,}\<close>. The first
  alternative is the group \<^verbatim>\<open>.*\<close> at least twice, found exactly when
  \<^verbatim>\<open>.*.*\<close> occurs. In the second alternative the parentheses are escaped, so
  the quantifier binds the closing parenthesis alone: \<^verbatim>\<open>(.+\<close> followed by at
  least two closing parentheses.
\<close>

definition backtracking_risk :: "pystr \<Rightarrow> bool" where
  "backtracking_risk pattern =
     (re_search False (lits ''.*.*'') pattern \<or>
      re_search False (lits ''(.+)'' @ [Plus (Lit CHR '')'')]) pattern)"

definition validate_regex_pattern ::
    "(pystr \<Rightarrow> exn option) \<Rightarrow> pystr \<Rightarrow> exn + ValidationError list" where
  "validate_regex_pattern re_compile pattern =
     (if pattern = [] then Inr []
      else
        let errors =
          (if length pattern > MAX_REGEX_LENGTH then
             [\<lparr>field = ''pattern'',
               message = ''Regex pattern exceeds maximum length of '' @ str_of_nat MAX_REGEX_LENGTH,
               severity = ''error''\<rparr>]
           else []);
          warnings =
          (if backtracking_risk pattern then
             [\<lparr>field = ''pattern'', message = ''Pattern may cause catastrophic backtracking'',
               severity = ''warning''\<rparr>]
           else [])
        in
          case re_compile pattern of
            None \<Rightarrow> Inr (errors @ warnings)
          | Some e \<Rightarrow>
              if exc_cls e = ReError then
                Inr (errors @
                  [\<lparr>field = ''pattern'', message = ''Invalid regex pattern: '' @ exc_msg e,
                    severity = ''error''\<rparr>] @ warnings)
              else Inl e)"

section \<open>The PreToolUse hook (hooks/pretooluse.py) and its logger (utils/logging.py)\<close>

subsection \<open>JSON values\<close>

text \<open>
  A dict is an association list in which the first binding of a key is the one that
  counts. Numbers are integers. The hook compares strings with ASCII literals and
  passes them on, so they are Isabelle strings here.
\<close>

datatype json =
  JNull | JBool bool | JInt int | JStr string | JList "json list" | JDict "(string \<times> json) list"

subsection \<open>StructuredLogger\<close>

datatype LogLevel = DEBUG | INFO | WARNING | ERROR | CRITICAL

record StructuredLogger =
  component :: string
  min_level :: LogLevel

fun level_order :: "LogLevel \<Rightarrow> nat" where
  "level_order DEBUG = 0"
| "level_order INFO = 1"
| "level_order WARNING = 2"
| "level_order ERROR = 3"
| "level_order CRITICAL = 4"

definition should_log :: "StructuredLogger \<Rightarrow> LogLevel \<Rightarrow> bool" where
  "should_log self level = (level_order level \<ge> level_order (min_level self))"

text \<open>One line of JSON on stderr; the optional keys are absent when \<open>None\<close>.\<close>

record log_entry =
  log_timestamp :: string
  log_level :: LogLevel
  log_component :: string
  log_message :: string
  log_context :: "(string \<times> json) list option"
  log_error :: "(exc_class \<times> string) option"

text \<open>The two output streams of the process: the JSON records and the log lines written.\<close>

record proc =
  stdout :: "json list"
  stderr :: "log_entry list"

text \<open>
  \<open>_log\<close>. The argument \<open>utcnow\<close> is the text of
  \<open>datetime.utcnow().isoformat()\<close> at the call. A context is kept when it is a
  non-empty dict, an error whenever one is given. Writing to a stream is taken to
  succeed.
\<close>

definition log :: "StructuredLogger \<Rightarrow> string \<Rightarrow> LogLevel \<Rightarrow> string \<Rightarrow>
    (string \<times> json) list option \<Rightarrow> exn option \<Rightarrow> proc \<Rightarrow> proc" where
  "log self utc level msg context error s =
     (if \<not> should_log self level then s
      else s\<lparr>stderr := stderr s @
        [\<lparr>log_timestamp = utc @ ''Z'', log_level = level, log_component = component self,
          log_message = msg,
          log_context = (case context of Some (b # bs) \<Rightarrow> Some (b # bs) | _ \<Rightarrow> None),
          log_error = map_option (\<lambda>e. (exc_cls e, exc_msg e)) error\<rparr>]\<rparr>)"

text \<open>
  The five logging methods. \<open>debug\<close>, \<open>info\<close> and \<open>warning\<close> are declared with the
  parameters \<open>(self, message, context=None)\<close>; \<open>error\<close> and \<open>critical\<close> with
  \<open>(self, message, context=None, error=None)\<close>. A call passes the message and
  optionally the context positionally, and optionally the keyword \<open>error=\<close>; Python
  raises \<open>TypeError\<close> when a keyword is not among the parameters of the method.
\<close>

datatype log_method = Debug | Info | Warning | Error | Critical

fun method_params :: "log_method \<Rightarrow> string list" where
  "method_params Debug = [''message'', ''context'']"
| "method_params Info = [''message'', ''context'']"
| "method_params Warning = [''message'', ''context'']"
| "method_params Error = [''message'', ''context'', ''error'']"
| "method_params Critical = [''message'', ''context'', ''error'']"

fun method_level :: "log_method \<Rightarrow> LogLevel" where
  "method_level Debug = DEBUG"
| "method_level Info = INFO"
| "method_level Warning = WARNING"
| "method_level Error = ERROR"
| "method_level Critical = CRITICAL"

definition quoted :: "string \<Rightarrow> string" where
  "quoted s = [CHR 0x27] @ s @ [CHR 0x27]"

fun method_name :: "log_method \<Rightarrow> string" where
  "method_name Debug = ''debug''"
| "method_name Info = ''info''"
| "method_name Warning = ''warning''"
| "method_name Error = ''error''"
| "method_name Critical = ''critical''"

definition unexpected_keyword :: "log_method \<Rightarrow> string \<Rightarrow> exn" where
  "unexpected_keyword m kw =
     Exn TypeError (''StructuredLogger.'' @ method_name m @
       ''() got an unexpected keyword argument '' @ quoted kw)"

definition call_logger :: "StructuredLogger \<Rightarrow> string \<Rightarrow> log_method \<Rightarrow> string \<Rightarrow>
    (string \<times> json) list option \<Rightarrow> exn option \<Rightarrow> proc \<Rightarrow> exn + proc" where
  "call_logger self utc m msg context kw_error s =
     (if kw_error \<noteq> None \<and> ''error'' \<notin> set (method_params m) then
        Inl (unexpected_keyword m ''error'')
      else Inr (log self utc (method_level m) msg context kw_error s))"

subsection \<open>main\<close>

text \<open>
  What \<open>main\<close> receives from outside this file: the outcome of
  \<open>json.load(sys.stdin)\<close>, the functions \<open>load_rules\<close> and
  \<open>RuleEngine().evaluate_rules\<close> of modules that are not part of the sources at hand
  (each returns or raises), and the clock read by the logger.
\<close>

record 'r env =
  stdin_json :: "exn + json"
  load_rules :: "string option \<Rightarrow> exn + 'r list"
  evaluate_rules :: "'r list \<Rightarrow> json \<Rightarrow> exn + (string \<times> json) list"
  utcnow :: string

definition logger :: StructuredLogger where
  "logger = \<lparr>component = ''pretooluse'', min_level = INFO\<rparr>"

text \<open>
  \<open>input_data.get(key, default)\<close>: only a dict has the method; on any other value
  the attribute lookup raises \<open>AttributeError\<close>, whose text names the type.
\<close>

fun type_name :: "json \<Rightarrow> string" where
  "type_name JNull = ''NoneType''"
| "type_name (JBool b) = ''bool''"
| "type_name (JInt i) = ''int''"
| "type_name (JStr s) = ''str''"
| "type_name (JList l) = ''list''"
| "type_name (JDict bs) = ''dict''"

definition json_get :: "json \<Rightarrow> string \<Rightarrow> json \<Rightarrow> exn + json" where
  "json_get d key dflt =
     (case d of
        JDict bs \<Rightarrow> Inr (case map_of bs key of Some v \<Rightarrow> v | None \<Rightarrow> dflt)
      | _ \<Rightarrow> Inl (Exn AttributeError
               (quoted (type_name d) @ '' object has no attribute '' @ quoted ''get'')))"

definition event_of :: "json \<Rightarrow> string option" where
  "event_of tool_name =
     (if tool_name = JStr ''Bash'' then Some ''bash''
      else if tool_name \<in> set [JStr ''Edit'', JStr ''Write'', JStr ''MultiEdit''] then Some ''file''
      else None)"

definition event_json :: "string option \<Rightarrow> json" where
  "event_json event = (case event of None \<Rightarrow> JNull | Some e \<Rightarrow> JStr e)"

text \<open>
  The body of the \<open>try\<close>: the state reached, and the exception that ended it, if any.
\<close>

definition try_body :: "'r env \<Rightarrow> proc \<Rightarrow> exn option \<times> proc" where
  "try_body env s0 =
     (case stdin_json env of
        Inl e \<Rightarrow> (Some e, s0)
      | Inr input_data \<Rightarrow>
     (case json_get input_data ''tool_name'' JNull of
        Inl e \<Rightarrow> (Some e, s0)
      | Inr tn \<Rightarrow>
     (case call_logger logger (utcnow env) Debug ''PreToolUse hook triggered''
             (Some [(''tool_name'', tn)]) None s0 of
        Inl e \<Rightarrow> (Some e, s0)
      | Inr s1 \<Rightarrow>
     (case json_get input_data ''tool_name'' (JStr []) of
        Inl e \<Rightarrow> (Some e, s1)
      | Inr tool_name \<Rightarrow>
     (let event = event_of tool_name in
      case load_rules env event of
        Inl e \<Rightarrow> (Some e, s1)
      | Inr rules \<Rightarrow>
     (case call_logger logger (utcnow env) Debug ''Rules loaded''
             (Some [(''count'', JInt (int (length rules))), (''event'', event_json event)]) None s1 of
        Inl e \<Rightarrow> (Some e, s1)
      | Inr s2 \<Rightarrow>
     (case evaluate_rules env rules input_data of
        Inl e \<Rightarrow> (Some e, s2)
      | Inr result \<Rightarrow>
     (let s3 = s2\<lparr>stdout := stdout s2 @ [JDict result]\<rparr> in
      if result \<noteq> [] then
        (case call_logger logger (utcnow env) Info ''Hook matched rules''
                (Some [(''has_block'', JBool (map_of result ''hookSpecificOutput'' \<noteq> None)),
                       (''has_warning'', JBool (map_of result ''systemMessage'' \<noteq> None \<and>
                          map_of result ''hookSpecificOutput'' = None))]) None s3 of
           Inl e \<Rightarrow> (Some e, s3)
         | Inr s4 \<Rightarrow> (None, s4))
      else (None, s3)))))))))"

text \<open>
  The \<open>except\<close> clauses, in the order of the source; the first whose class matches
  runs. An exception raised inside a handler is not caught by a later clause of the same
  \<open>try\<close>.
\<close>

definition handlers :: "'r env \<Rightarrow> exn \<Rightarrow> proc \<Rightarrow> exn option \<times> proc" where
  "handlers env e s =
     (if exc_cls e = JSONDecodeError then
        (case call_logger logger (utcnow env) Error ''Failed to parse hook input JSON'' None (Some e) s of
           Inl e' \<Rightarrow> (Some e', s)
         | Inr s1 \<Rightarrow>
             (None, s1\<lparr>stdout := stdout s1 @
                [JDict [(''systemMessage'', JStr ''Hookify error: Invalid JSON input'')]]\<rparr>))
      else if exc_cls e = FileNotFoundError then
        (case call_logger logger (utcnow env) Warning ''Configuration file not found'' None (Some e) s of
           Inl e' \<Rightarrow> (Some e', s)
         | Inr s1 \<Rightarrow> (None, s1\<lparr>stdout := stdout s1 @ [JDict []]\<rparr>))
      else if exc_cls e = PermissionError then
        (case call_logger logger (utcnow env) Error ''Permission denied reading configuration''
                None (Some e) s of
           Inl e' \<Rightarrow> (Some e', s)
         | Inr s1 \<Rightarrow>
             (None, s1\<lparr>stdout := stdout s1 @
                [JDict [(''systemMessage'', JStr ''Hookify error: Permission denied'')]]\<rparr>))
      else if exc_cls e \<noteq> NonException then
        (case call_logger logger (utcnow env) Critical ''Unexpected error in PreToolUse hook''
                None (Some e) s of
           Inl e' \<Rightarrow> (Some e', s)
         | Inr s1 \<Rightarrow>
             (None, s1\<lparr>stdout := stdout s1 @
                [JDict [(''systemMessage'', JStr (''Hookify error: '' @ exc_msg e))]]\<rparr>))
      else (Some e, s))"

text \<open>
  How the process ends. The \<open>finally\<close> clause runs \<open>sys.exit(0)\<close> whatever happened
  before; the \<open>SystemExit\<close> it raises replaces an exception still in flight.
\<close>

datatype ending = Exit int | Uncaught exn

definition finally_sys_exit :: "exn option \<Rightarrow> ending" where
  "finally_sys_exit in_flight = Exit 0"

definition main :: "'r env \<Rightarrow> proc \<Rightarrow> proc \<times> ending" where
  "main env s0 =
     (let (raised, s1) = try_body env s0;
          (in_flight, s2) = (case raised of None \<Rightarrow> (None, s1) | Some e \<Rightarrow> handlers env e s1)
      in (s2, finally_sys_exit in_flight))"

lemma py_Nil [simp]: "py [] = []"
  by (simp add: py_def)

lemma py_Cons [simp]: "py (c # s) = of_char c # py s"
  by (simp add: py_def)

lemma py_append [simp]: "py (s @ t) = py s @ py t"
  by (simp add: py_def)

lemma length_py [simp]: "length (py s) = length s"
  by (simp add: py_def)

lemma startswith_iff: "startswith s p \<longleftrightarrow> (\<exists>t. s = p @ t)"
  by (induction s p rule: startswith.induct) auto

lemma contains_iff: "contains s sub \<longleftrightarrow> (\<exists>u t. s = u @ sub @ t)"
proof (induction s)
  case Nil
  show ?case by (simp add: startswith_iff)
next
  case (Cons c s)
  show ?case
  proof
    assume "contains (c # s) sub"
    then consider "startswith (c # s) sub" | "contains s sub" by auto
    then show "\<exists>u t. c # s = u @ sub @ t"
    proof cases
      case 1
      then obtain t where "c # s = sub @ t" by (auto simp: startswith_iff)
      then have "c # s = [] @ sub @ t" by simp
      then show ?thesis by blast
    next
      case 2
      then obtain u t where "s = u @ sub @ t" using Cons.IH by blast
      then have "c # s = (c # u) @ sub @ t" by simp
      then show ?thesis by blast
    qed
  next
    assume "\<exists>u t. c # s = u @ sub @ t"
    then obtain u t where ut: "c # s = u @ sub @ t" by blast
    show "contains (c # s) sub"
    proof (cases u)
      case Nil
      with ut have "startswith (c # s) sub" by (auto simp: startswith_iff)
      then show ?thesis by simp
    next
      case (Cons a u')
      with ut have "s = u' @ sub @ t" by simp
      then have "contains s sub" using Cons.IH by blast
      then show ?thesis by simp
    qed
  qed
qed

section \<open>Properties of the validators\<close>

lemma scan_patterns_severity:
  "e \<in> set (scan_patterns ps command) \<Longrightarrow> severity e = ''warning'' \<and> field e = ''command''"
  by (induction ps command rule: scan_patterns.induct) (auto split: if_splits)

lemma str_of_nat_consts:
  "str_of_nat MAX_COMMAND_LENGTH = ''10000''"
  "str_of_nat MAX_TEXT_LENGTH = ''1000000''"
  "str_of_nat MAX_FILE_PATH_LENGTH = ''4096''"
  "str_of_nat MAX_REGEX_LENGTH = ''500''"
  by (simp_all add: MAX_COMMAND_LENGTH_def MAX_TEXT_LENGTH_def MAX_FILE_PATH_LENGTH_def
      MAX_REGEX_LENGTH_def str_of_nat.simps digit_char_def)

text \<open>
  Claim C1. For every path: the empty path yields exactly the error-severity "File path
  cannot be empty" entry; a path containing \<^verbatim>\<open>..\<close> always yields the
  error-severity path-traversal entry; an absolute path that does not start with
  \<^verbatim>\<open>/workspace\<close> yields the "Absolute path outside workspace" entry, which is
  reported with severity warning and never with severity error, and when no other check
  fires it is the only entry returned.
\<close>

theorem validate_file_path_rejections:
  "(path = [] \<longrightarrow>
      validate_file_path path =
        [\<lparr>field = ''file_path'', message = ''File path cannot be empty'', severity = ''error''\<rparr>]) \<and>
   (contains path (py ''..'') \<longrightarrow>
      \<lparr>field = ''file_path'', message = ''Path traversal detected (..)'', severity = ''error''\<rparr>
        \<in> set (validate_file_path path)) \<and>
   (startswith path (py ''/'') \<and> \<not> startswith path (py ''/workspace'') \<longrightarrow>
      \<lparr>field = ''file_path'', message = ''Absolute path outside workspace'', severity = ''warning''\<rparr>
        \<in> set (validate_file_path path) \<and>
      (\<forall>e \<in> set (validate_file_path path).
         message e = ''Absolute path outside workspace'' \<longrightarrow> severity e = ''warning'') \<and>
      (length path \<le> 4096 \<and> \<not> contains path (py ''..'') \<longrightarrow>
         validate_file_path path =
           [\<lparr>field = ''file_path'', message = ''Absolute path outside workspace'',
             severity = ''warning''\<rparr>]))"
proof (intro conjI impI)
  assume "path = []"
  then show "validate_file_path path =
        [\<lparr>field = ''file_path'', message = ''File path cannot be empty'', severity = ''error''\<rparr>]"
    by (simp add: validate_file_path_def)
next
  assume c: "contains path (py ''..'')"
  then have "path \<noteq> []" by auto
  with c show "\<lparr>field = ''file_path'', message = ''Path traversal detected (..)'', severity = ''error''\<rparr>
        \<in> set (validate_file_path path)"
    by (simp add: validate_file_path_def)
next
  assume a: "startswith path (py ''/'') \<and> \<not> startswith path (py ''/workspace'')"
  then have ne: "path \<noteq> []" by auto
  from a ne show "\<lparr>field = ''file_path'', message = ''Absolute path outside workspace'', severity = ''warning''\<rparr>
        \<in> set (validate_file_path path)"
    by (simp add: validate_file_path_def)
  from ne show "\<forall>e \<in> set (validate_file_path path).
         message e = ''Absolute path outside workspace'' \<longrightarrow> severity e = ''warning''"
    by (auto simp: validate_file_path_def split: if_splits)
  assume "length path \<le> 4096 \<and> \<not> contains path (py ''..'')"
  with a ne show "validate_file_path path =
           [\<lparr>field = ''file_path'', message = ''Absolute path outside workspace'',
             severity = ''warning''\<rparr>]"
    by (simp add: validate_file_path_def MAX_FILE_PATH_LENGTH_def)
qed

theorem validate_file_path_rejections_witness:
  "validate_file_path [] =
     [\<lparr>field = ''file_path'', message = ''File path cannot be empty'', severity = ''error''\<rparr>] \<and>
   \<lparr>field = ''file_path'', message = ''Path traversal detected (..)'', severity = ''error''\<rparr>
     \<in> set (validate_file_path (py ''../../etc/passwd'')) \<and>
   validate_file_path (py ''/etc/passwd'') =
     [\<lparr>field = ''file_path'', message = ''Absolute path outside workspace'', severity = ''warning''\<rparr>]"
  using validate_file_path_rejections [of "[]"]
    validate_file_path_rejections [of "py ''../../etc/passwd''"]
    validate_file_path_rejections [of "py ''/etc/passwd''"]
  by simp

text \<open>
  Claim C9. The workspace check is a literal prefix test: the "Absolute path outside
  workspace" warning is returned exactly when the path starts with \<^verbatim>\<open>/\<close> and
  does not start with \<^verbatim>\<open>/workspace\<close>, so \<^verbatim>\<open>/workspace-other/file\<close> and
  \<^verbatim>\<open>/workspaces/x\<close> receive no entry at all.
\<close>

theorem workspace_check_is_prefix_test:
  "(\<lparr>field = ''file_path'', message = ''Absolute path outside workspace'', severity = ''warning''\<rparr>
      \<in> set (validate_file_path path)
    \<longleftrightarrow> startswith path (py ''/'') \<and> \<not> startswith path (py ''/workspace'')) \<and>
   validate_file_path (py ''/workspace-other/file'') = [] \<and>
   validate_file_path (py ''/workspaces/x'') = []"
proof (intro conjI)
  show "(\<lparr>field = ''file_path'', message = ''Absolute path outside workspace'', severity = ''warning''\<rparr>
      \<in> set (validate_file_path path)
    \<longleftrightarrow> startswith path (py ''/'') \<and> \<not> startswith path (py ''/workspace''))"
    by (cases "path = []") (auto simp: validate_file_path_def split: if_splits)
  show "validate_file_path (py ''/workspace-other/file'') = []"
    by (simp add: validate_file_path_def MAX_FILE_PATH_LENGTH_def)
  show "validate_file_path (py ''/workspaces/x'') = []"
    by (simp add: validate_file_path_def MAX_FILE_PATH_LENGTH_def)
qed

theorem workspace_check_is_prefix_test_witness:
  "\<lparr>field = ''file_path'', message = ''Absolute path outside workspace'', severity = ''warning''\<rparr>
      \<in> set (validate_file_path (py ''/home/x'')) \<and>
   \<lparr>field = ''file_path'', message = ''Absolute path outside workspace'', severity = ''warning''\<rparr>
      \<notin> set (validate_file_path (py ''/workspace2/../x''))"
  using workspace_check_is_prefix_test [of "py ''/home/x''"]
    workspace_check_is_prefix_test [of "py ''/workspace2/../x''"]
  by simp

text \<open>
  Claim C3. Each length check yields its error-severity entry exactly when the length
  strictly exceeds the maximum: 10000 for commands, 1000000 for free text, 4096 for file
  paths. For commands and free text the length entry is the only error-severity entry
  there is, so an input of exactly the maximum length has none.
\<close>

theorem length_checks_strict:
  "((\<exists>e \<in> set (validate_bash_command command). severity e = ''error'') \<longleftrightarrow> length command > 10000) \<and>
   (\<lparr>field = ''command'', message = ''Command exceeds maximum length of 10000'', severity = ''error''\<rparr>
      \<in> set (validate_bash_command command) \<longleftrightarrow> length command > 10000) \<and>
   ((\<exists>e \<in> set (validate_text_length text field_name). severity e = ''error'') \<longleftrightarrow>
      length text > 1000000) \<and>
   (\<lparr>field = field_name, message = ''Text exceeds maximum length of 1000000'', severity = ''error''\<rparr>
      \<in> set (validate_text_length text field_name) \<longleftrightarrow> length text > 1000000) \<and>
   (\<lparr>field = ''file_path'', message = ''File path exceeds maximum length of 4096'', severity = ''error''\<rparr>
      \<in> set (validate_file_path path) \<longleftrightarrow> length path > 4096)"
proof (intro conjI)
  have w: "\<And>e. e \<in> set (scan_patterns dangerous_patterns command) \<Longrightarrow> severity e = ''warning''"
    using scan_patterns_severity by blast
  show "(\<exists>e \<in> set (validate_bash_command command). severity e = ''error'') \<longleftrightarrow> length command > 10000"
  proof (cases "command = []")
    case True
    then show ?thesis by (simp add: validate_bash_command_def)
  next
    case False
    then show ?thesis
      using w by (auto simp: validate_bash_command_def MAX_COMMAND_LENGTH_def)
  qed
  show "\<lparr>field = ''command'', message = ''Command exceeds maximum length of 10000'', severity = ''error''\<rparr>
      \<in> set (validate_bash_command command) \<longleftrightarrow> length command > 10000"
  proof (cases "command = []")
    case True
    then show ?thesis by (simp add: validate_bash_command_def)
  next
    case False
    then show ?thesis
      using w [of "\<lparr>field = ''command'', message = ''Command exceeds maximum length of 10000'',
        severity = ''error''\<rparr>"]
      by (simp add: validate_bash_command_def str_of_nat_consts) (auto simp: MAX_COMMAND_LENGTH_def)
  qed
  show "(\<exists>e \<in> set (validate_text_length text field_name). severity e = ''error'') \<longleftrightarrow>
      length text > 1000000"
    by (simp add: validate_text_length_def MAX_TEXT_LENGTH_def)
  show "\<lparr>field = field_name, message = ''Text exceeds maximum length of 1000000'', severity = ''error''\<rparr>
      \<in> set (validate_text_length text field_name) \<longleftrightarrow> length text > 1000000"
    by (simp add: validate_text_length_def str_of_nat_consts) (simp add: MAX_TEXT_LENGTH_def)
  show "\<lparr>field = ''file_path'', message = ''File path exceeds maximum length of 4096'', severity = ''error''\<rparr>
      \<in> set (validate_file_path path) \<longleftrightarrow> length path > 4096"
  proof (cases "path = []")
    case True
    then show ?thesis by (simp add: validate_file_path_def)
  next
    case False
    then show ?thesis
      by (simp add: validate_file_path_def str_of_nat_consts) (simp add: MAX_FILE_PATH_LENGTH_def)
  qed
qed

theorem length_checks_strict_witness:
  "\<lparr>field = ''command'', message = ''Command exceeds maximum length of 10000'', severity = ''error''\<rparr>
      \<notin> set (validate_bash_command (py (replicate 10000 CHR ''a''))) \<and>
   \<lparr>field = ''command'', message = ''Command exceeds maximum length of 10000'', severity = ''error''\<rparr>
      \<in> set (validate_bash_command (py (replicate 10001 CHR ''a''))) \<and>
   \<not> (\<exists>e \<in> set (validate_bash_command (py (replicate 10000 CHR ''a''))). severity e = ''error'') \<and>
   \<not> (\<exists>e \<in> set (validate_text_length (py (replicate 1000000 CHR ''a'')) ''content''). severity e = ''error'') \<and>
   (\<exists>e \<in> set (validate_text_length (py (replicate 1000001 CHR ''a'')) ''content''). severity e = ''error'') \<and>
   \<lparr>field = ''file_path'', message = ''File path exceeds maximum length of 4096'', severity = ''error''\<rparr>
      \<notin> set (validate_file_path (py (replicate 4096 CHR ''a''))) \<and>
   \<lparr>field = ''file_path'', message = ''File path exceeds maximum length of 4096'', severity = ''error''\<rparr>
      \<in> set (validate_file_path (py (replicate 4097 CHR ''a'')))"
proof -
  define c0 where "c0 = py (replicate 10000 CHR ''a'')"
  define c1 where "c1 = py (replicate 10001 CHR ''a'')"
  define t0 where "t0 = py (replicate 1000000 CHR ''a'')"
  define t1 where "t1 = py (replicate 1000001 CHR ''a'')"
  define p0 where "p0 = py (replicate 4096 CHR ''a'')"
  define p1 where "p1 = py (replicate 4097 CHR ''a'')"
  have lens: "length c0 = 10000" "length c1 = 10001" "length t0 = 1000000"
    "length t1 = 1000001" "length p0 = 4096" "length p1 = 4097"
    by (simp_all only: c0_def c1_def t0_def t1_def p0_def p1_def py_def length_map length_replicate)
  have "\<lparr>field = ''command'', message = ''Command exceeds maximum length of 10000'', severity = ''error''\<rparr>
      \<notin> set (validate_bash_command c0) \<and>
   \<lparr>field = ''command'', message = ''Command exceeds maximum length of 10000'', severity = ''error''\<rparr>
      \<in> set (validate_bash_command c1) \<and>
   \<not> (\<exists>e \<in> set (validate_bash_command c0). severity e = ''error'') \<and>
   \<not> (\<exists>e \<in> set (validate_text_length t0 ''content''). severity e = ''error'') \<and>
   (\<exists>e \<in> set (validate_text_length t1 ''content''). severity e = ''error'') \<and>
   \<lparr>field = ''file_path'', message = ''File path exceeds maximum length of 4096'', severity = ''error''\<rparr>
      \<notin> set (validate_file_path p0) \<and>
   \<lparr>field = ''file_path'', message = ''File path exceeds maximum length of 4096'', severity = ''error''\<rparr>
      \<in> set (validate_file_path p1)"
    using length_checks_strict [of c0 t0 "''content''" p0]
      length_checks_strict [of c1 t1 "''content''" p1] lens
    by simp
  then show ?thesis
    unfolding c0_def c1_def t0_def t1_def p0_def p1_def .
qed

subsection \<open>Case folding and the matcher\<close>

lemma lower_latin1_idem [simp]: "lower_latin1 (lower_latin1 c) = lower_latin1 c"
  by (auto simp: lower_latin1_def)

lemma lower_latin1_below [simp]: "(lower_latin1 c < 256) = (c < 256)"
  by (auto simp: lower_latin1_def)

lemma lower_latin1_wide: "\<not> c < 256 \<Longrightarrow> lower_latin1 c = c"
  by (auto simp: lower_latin1_def)

lemma lower_latin1_newline [simp]: "(lower_latin1 c = 10) = (c = 10)"
  by (auto simp: lower_latin1_def)

lemma is_word_lower_latin1 [simp]: "is_word (lower_latin1 c) = is_word c"
  by (cases "c < 256") (auto simp: is_word_def lower_latin1_def)

lemma is_space_lower_latin1 [simp]: "is_space (lower_latin1 c) = is_space c"
  by (auto simp: is_space_def lower_latin1_def)

lemma atom_ok_lower [simp]: "atom_ok True a (lower_latin1 c) = atom_ok True a c"
  by (cases a; cases "c < 256") (simp_all add: lower_latin1_wide)

lemma next_is_word_lower [simp]: "next_is_word (map lower_latin1 s) = next_is_word s"
  by (cases s) simp_all












lemma scan_patterns_flags:
  "(pattern, description) \<in> set ps \<Longrightarrow> re_search True pattern command \<Longrightarrow>
   \<lparr>field = ''command'', message = ''Dangerous pattern detected: '' @ description,
     severity = ''warning''\<rparr> \<in> set (scan_patterns ps command)"
  by (induction ps command rule: scan_patterns.induct) auto

lemma dangerous_patterns_nonempty:
  "(pattern, description) \<in> set dangerous_patterns \<Longrightarrow> \<not> re_search ic pattern []"
  by (auto simp: dangerous_patterns_def re_search_def lits_def)

lemma validate_bash_command_flags:
  assumes "(pattern, description) \<in> set dangerous_patterns"
    and "re_search True pattern command"
  shows "\<lparr>field = ''command'', message = ''Dangerous pattern detected: '' @ description,
     severity = ''warning''\<rparr> \<in> set (validate_bash_command command)"
proof -
  from assms have "command \<noteq> []"
    using dangerous_patterns_nonempty by blast
  then show ?thesis
    using scan_patterns_flags [OF assms] by (simp add: validate_bash_command_def)
qed

text \<open>Facts for evaluating the matcher on a concrete string.\<close>

lemma is_word_below_256:
  "n < 256 \<Longrightarrow> is_word n =
     ((48 \<le> n \<and> n \<le> 57) \<or> (65 \<le> n \<and> n \<le> 90) \<or> n = 95 \<or> (97 \<le> n \<and> n \<le> 122) \<or>
      n = 170 \<or> n = 178 \<or> n = 179 \<or> n = 181 \<or> n = 185 \<or> n = 186 \<or>
      (188 \<le> n \<and> n \<le> 190) \<or> (192 \<le> n \<and> n \<le> 214) \<or> (216 \<le> n \<and> n \<le> 246) \<or>
      248 \<le> n)"
  by (simp add: is_word_def)



lemmas re_eval = re_search_def lits_def py_def is_word_below_256 is_space_def lower_latin1_def
  ignorecase_wide_def


text \<open>
  Claim C2. For every command, each pattern of the fixed table that is found in the
  command (searched with \<open>re.IGNORECASE\<close>) yields its "Dangerous pattern detected"
  entry with severity warning; every entry returned is a warning except the length
  entry, so a command within the length limit gets warnings only. The recursive root
  delete, \<^verbatim>\<open>chmod 777\<close>, \<^verbatim>\<open>eval\<close>, and a curl or wget download piped into
  bash are flagged.
\<close>

theorem dangerous_idioms_flagged_as_warnings:
  "(\<forall>(pattern, description) \<in> set dangerous_patterns.
      re_search True pattern command \<longrightarrow>
        \<lparr>field = ''command'', message = ''Dangerous pattern detected: '' @ description,
          severity = ''warning''\<rparr> \<in> set (validate_bash_command command)) \<and>
   (\<forall>e \<in> set (validate_bash_command command).
      severity e = ''warning'' \<or>
      e = \<lparr>field = ''command'', message = ''Command exceeds maximum length of 10000'',
            severity = ''error''\<rparr> \<and> length command > 10000) \<and>
   (length command \<le> 10000 \<longrightarrow>
      (\<forall>e \<in> set (validate_bash_command command). severity e = ''warning'')) \<and>
   \<lparr>field = ''command'', message = ''Dangerous pattern detected: Recursive force delete from root'',
      severity = ''warning''\<rparr> \<in> set (validate_bash_command (py ''sudo rm -rf /'')) \<and>
   \<lparr>field = ''command'', message = ''Dangerous pattern detected: Overly permissive file permissions'',
      severity = ''warning''\<rparr> \<in> set (validate_bash_command (py ''chmod 777 file'')) \<and>
   \<lparr>field = ''command'', message = ''Dangerous pattern detected: Arbitrary code execution via eval'',
      severity = ''warning''\<rparr> \<in> set (validate_bash_command (py ''eval $x'')) \<and>
   \<lparr>field = ''command'', message = ''Dangerous pattern detected: Piping remote scripts to bash'',
      severity = ''warning''\<rparr> \<in> set (validate_bash_command (py ''curl http://x/i.sh | bash'')) \<and>
   \<lparr>field = ''command'', message = ''Dangerous pattern detected: Piping remote scripts to bash'',
      severity = ''warning''\<rparr> \<in> set (validate_bash_command (py ''wget -qO- http://x/i.sh |bash''))"
proof (intro conjI)
  show "\<forall>(pattern, description) \<in> set dangerous_patterns.
      re_search True pattern command \<longrightarrow>
        \<lparr>field = ''command'', message = ''Dangerous pattern detected: '' @ description,
          severity = ''warning''\<rparr> \<in> set (validate_bash_command command)"
    using validate_bash_command_flags by blast
  have w: "\<And>e. e \<in> set (scan_patterns dangerous_patterns command) \<Longrightarrow> severity e = ''warning''"
    using scan_patterns_severity by blast
  show all: "\<forall>e \<in> set (validate_bash_command command).
      severity e = ''warning'' \<or>
      e = \<lparr>field = ''command'', message = ''Command exceeds maximum length of 10000'',
            severity = ''error''\<rparr> \<and> length command > 10000"
    using w unfolding validate_bash_command_def str_of_nat_consts
    by (auto simp: MAX_COMMAND_LENGTH_def split: if_splits)
  show "length command \<le> 10000 \<longrightarrow>
      (\<forall>e \<in> set (validate_bash_command command). severity e = ''warning'')"
    using all by auto
  show "\<lparr>field = ''command'', message = ''Dangerous pattern detected: Recursive force delete from root'',
      severity = ''warning''\<rparr> \<in> set (validate_bash_command (py ''sudo rm -rf /''))"
    by (rule validate_bash_command_flags [where description = "''Recursive force delete from root''"
          and pattern = "WordB # lits ''rm'' @ [Plus Space] @ lits ''-rf'' @ [Plus Space] @ lits ''/''",
          simplified])
      (simp_all add: dangerous_patterns_def re_eval)
  show "\<lparr>field = ''command'', message = ''Dangerous pattern detected: Overly permissive file permissions'',
      severity = ''warning''\<rparr> \<in> set (validate_bash_command (py ''chmod 777 file''))"
    by (rule validate_bash_command_flags [where description = "''Overly permissive file permissions''"
          and pattern = "WordB # lits ''chmod'' @ [Plus Space] @ lits ''777''",
          simplified])
      (simp_all add: dangerous_patterns_def re_eval)
  show "\<lparr>field = ''command'', message = ''Dangerous pattern detected: Arbitrary code execution via eval'',
      severity = ''warning''\<rparr> \<in> set (validate_bash_command (py ''eval $x''))"
    by (rule validate_bash_command_flags [where description = "''Arbitrary code execution via eval''"
          and pattern = "WordB # lits ''eval'' @ [Plus Space]",
          simplified])
      (simp_all add: dangerous_patterns_def re_eval)
  show "\<lparr>field = ''command'', message = ''Dangerous pattern detected: Piping remote scripts to bash'',
      severity = ''warning''\<rparr> \<in> set (validate_bash_command (py ''curl http://x/i.sh | bash''))"
    by (rule validate_bash_command_flags [where description = "''Piping remote scripts to bash''"
          and pattern = "WordB # lits ''curl'' @ [Plus Space, Star AnyChar] @ lits ''|'' @ [Star Space] @ lits ''bash''",
          simplified])
      (simp_all add: dangerous_patterns_def re_eval)
  show "\<lparr>field = ''command'', message = ''Dangerous pattern detected: Piping remote scripts to bash'',
      severity = ''warning''\<rparr> \<in> set (validate_bash_command (py ''wget -qO- http://x/i.sh |bash''))"
    by (rule validate_bash_command_flags [where description = "''Piping remote scripts to bash''"
          and pattern = "WordB # lits ''wget'' @ [Plus Space, Star AnyChar] @ lits ''|'' @ [Star Space] @ lits ''bash''",
          simplified])
      (simp_all add: dangerous_patterns_def re_eval)
qed

theorem dangerous_idioms_flagged_as_warnings_witness:
  "\<lparr>field = ''command'', message = ''Dangerous pattern detected: Overly permissive file permissions'',
      severity = ''warning''\<rparr> \<in> set (validate_bash_command (py ''chmod 777 /tmp/x'')) \<and>
   \<lparr>field = ''command'', message = ''Command exceeds maximum length of 10000'',
      severity = ''error''\<rparr> \<notin> set (validate_bash_command (py ''chmod 777 /tmp/x''))"
proof -
  have m: "(WordB # lits ''chmod'' @ [Plus Space] @ lits ''777'', ''Overly permissive file permissions'')
      \<in> set dangerous_patterns"
    by (simp add: dangerous_patterns_def)
  have s: "re_search True (WordB # lits ''chmod'' @ [Plus Space] @ lits ''777'') (py ''chmod 777 /tmp/x'')"
    by (simp add: re_eval)
  have l: "length (py ''chmod 777 /tmp/x'') \<le> 10000" by (simp add: py_def)
  from dangerous_idioms_flagged_as_warnings [of "py ''chmod 777 /tmp/x''"] m s l
  show ?thesis by fastforce
qed





subsection \<open>validate\_regex\_pattern\<close>

text \<open>
  What the backtracking check finds, in terms of substrings: \<^verbatim>\<open>.*.*\<close>, or
  \<^verbatim>\<open>(.+\<close> followed by two closing parentheses.
\<close>

lemma re_match_here_lits:
  "re_match_here False (lits p) pw s = startswith s (py p)"
proof (induction p arbitrary: pw s)
  case Nil
  show ?case by (simp add: lits_def)
next
  case (Cons c p)
  then have ih: "\<And>pw s. re_match_here False (map (\<lambda>c. One (Lit c)) p) pw s = startswith s (py p)"
    by (simp add: lits_def)
  show ?case
    by (cases s) (auto simp: lits_def ih)
qed

lemma re_match_here_star_end: "re_match_here ic [Star a] pw s"
  by (cases s) simp_all

lemma re_match_here_lits_plus:
  "re_match_here False (lits p @ [Plus (Lit c)]) pw s = startswith s (py (p @ [c]))"
proof (induction p arbitrary: pw s)
  case Nil
  show ?case by (cases s) (auto simp: lits_def re_match_here_star_end)
next
  case (Cons d p)
  then have ih: "\<And>pw s. re_match_here False (map (\<lambda>c. One (Lit c)) p @ [Plus (Lit c)]) pw s
      = startswith s (py (p @ [c]))"
    by (simp add: lits_def)
  show ?case
    by (cases s) (auto simp: lits_def ih)
qed

lemma search_from_startswith:
  assumes "\<And>pw s. re_match_here False r pw s = startswith s p"
  shows "search_from False r pw s = contains s p"
  by (induction s arbitrary: pw) (simp_all add: assms)

lemma backtracking_risk_iff:
  "backtracking_risk pattern \<longleftrightarrow> contains pattern (py ''.*.*'') \<or> contains pattern (py ''(.+))'')"
proof -
  have a: "re_search False (lits ''.*.*'') pattern = contains pattern (py ''.*.*'')"
    unfolding re_search_def by (rule search_from_startswith) (rule re_match_here_lits)
  have b: "re_search False (lits ''(.+)'' @ [Plus (Lit CHR '')'')]) pattern
      = contains pattern (py (''(.+)'' @ [CHR '')'']))"
    unfolding re_search_def by (rule search_from_startswith) (rule re_match_here_lits_plus)
  show ?thesis
    unfolding backtracking_risk_def a b by simp
qed

text \<open>
  When \<open>re.compile\<close> returns, or raises \<open>re.error\<close>, the function returns a list:
  the length entry exactly for more than 500 characters, the compile entry exactly for the
  \<open>re.error\<close> raised, the backtracking warning exactly when the check finds its
  pattern.
\<close>

lemma validate_regex_pattern_entries:
  assumes "pattern \<noteq> []"
    and "re_compile pattern = None \<or> (\<exists>m. re_compile pattern = Some (Exn ReError m))"
  shows "\<exists>errors. validate_regex_pattern re_compile pattern = Inr errors \<and>
     (\<lparr>field = ''pattern'', message = ''Regex pattern exceeds maximum length of 500'',
        severity = ''error''\<rparr> \<in> set errors \<longleftrightarrow> length pattern > 500) \<and>
     (\<forall>m. \<lparr>field = ''pattern'', message = ''Invalid regex pattern: '' @ m, severity = ''error''\<rparr>
        \<in> set errors \<longleftrightarrow> re_compile pattern = Some (Exn ReError m)) \<and>
     (\<lparr>field = ''pattern'', message = ''Pattern may cause catastrophic backtracking'',
        severity = ''warning''\<rparr> \<in> set errors \<longleftrightarrow> backtracking_risk pattern)"
  using assms unfolding validate_regex_pattern_def str_of_nat_consts Let_def
  by (auto simp: MAX_REGEX_LENGTH_def)

text \<open>
  Claim C4 (not met by the code). \<open>re.compile\<close> also fails with exceptions that are
  not \<open>re.error\<close>: CPython raises \<open>OverflowError\<close> for a repeat count of
  4294967295 or more, as in \<^verbatim>\<open>a{4294967296}\<close>, and \<open>RecursionError\<close> for
  deeply nested groups. The \<open>except re.error\<close> clause does not catch them: for a
  non-empty pattern on which \<open>re.compile\<close> raises such an exception, the function
  raises it and returns no entry at all, whatever the length of the pattern. The instance
  after the theorem is a pattern of 513 characters that does not compile.
\<close>

theorem validate_regex_pattern_uncaught:
  "pattern \<noteq> [] \<Longrightarrow> re_compile pattern = Some e \<Longrightarrow> exc_cls e \<noteq> ReError \<Longrightarrow>
   validate_regex_pattern re_compile pattern = Inl e"
  by (simp add: validate_regex_pattern_def Let_def)

theorem validate_regex_pattern_uncaught_witness:
  "validate_regex_pattern
     (\<lambda>p. if p = py (''a{4294967296}'' @ replicate 500 CHR ''a'')
          then Some (Exn OverflowError ''the repetition number is too large'') else None)
     (py (''a{4294967296}'' @ replicate 500 CHR ''a'')) =
   Inl (Exn OverflowError ''the repetition number is too large'')"
  using validate_regex_pattern_uncaught
    [of "py (''a{4294967296}'' @ replicate 500 CHR ''a'')"
        "\<lambda>p. if p = py (''a{4294967296}'' @ replicate 500 CHR ''a'')
          then Some (Exn OverflowError ''the repetition number is too large'') else None"
        "Exn OverflowError ''the repetition number is too large''"]
  by simp

text \<open>
  Claim C5 (not met by the code). On the pattern \<^verbatim>\<open>a{4294967296}\<close>, where
  \<open>re.compile\<close> raises \<open>OverflowError\<close>, \<open>validate_regex_pattern\<close> raises that
  exception instead of returning a list of entries.
\<close>

theorem validate_regex_pattern_not_total:
  "re_compile (py ''a{4294967296}'') = Some (Exn OverflowError ''the repetition number is too large'') \<Longrightarrow>
   validate_regex_pattern re_compile (py ''a{4294967296}'') =
     Inl (Exn OverflowError ''the repetition number is too large'') \<and>
   \<not> (\<exists>errors. validate_regex_pattern re_compile (py ''a{4294967296}'') = Inr errors)"
  by (simp add: validate_regex_pattern_def Let_def)

theorem validate_regex_pattern_not_total_witness:
  "\<not> (\<exists>errors. validate_regex_pattern
        (\<lambda>p. Some (Exn OverflowError ''the repetition number is too large''))
        (py ''a{4294967296}'') = Inr errors)"
  using validate_regex_pattern_not_total
    [of "\<lambda>p. Some (Exn OverflowError ''the repetition number is too large'')"]
  by simp

text \<open>
  Claim C10. On the empty string \<open>validate_bash_command\<close> and
  \<open>validate_regex_pattern\<close> return the empty list (the latter without calling
  \<open>re.compile\<close>, whatever it would do), and \<open>validate_file_path\<close> returns the
  empty-path error alone.
\<close>

theorem empty_inputs_short_circuit:
  "validate_bash_command [] = [] \<and>
   validate_regex_pattern re_compile [] = Inr [] \<and>
   validate_file_path [] =
     [\<lparr>field = ''file_path'', message = ''File path cannot be empty'', severity = ''error''\<rparr>]"
  by (simp add: validate_bash_command_def validate_regex_pattern_def validate_file_path_def)

theorem empty_inputs_short_circuit_witness:
  "validate_bash_command (py '''') = [] \<and>
   validate_regex_pattern (\<lambda>p. Some (Exn OverflowError ''the repetition number is too large'')) (py '''') = Inr [] \<and>
   validate_file_path (py '''') =
     [\<lparr>field = ''file_path'', message = ''File path cannot be empty'', severity = ''error''\<rparr>]"
  using empty_inputs_short_circuit
    [of "\<lambda>p. Some (Exn OverflowError ''the repetition number is too large'')"]
  by simp

section \<open>Properties of the PreToolUse hook\<close>

text \<open>
  The process always ends with exit status 0, and on every path but two it has written
  one more JSON record to stdout: the result of the rule engine, or an error record from
  the handler. The two paths are a \<open>FileNotFoundError\<close> and an exception outside
  \<open>Exception\<close>.
\<close>

lemma main_exit_status: "snd (main env s0) = Exit 0"
  by (simp add: main_def finally_sys_exit_def Let_def split: prod.splits)

lemma logger_debug_silent:
  "call_logger logger utc Debug msg context None s = Inr s"
  by (simp add: call_logger_def log_def should_log_def logger_def)

lemma logger_warning_rejects_error_keyword:
  "call_logger self utc Warning msg context (Some e) s =
     Inl (unexpected_keyword Warning ''error'')"
  by (simp add: call_logger_def)

lemma call_logger_stdout:
  "call_logger self utc m msg context kw s = Inr s' \<Longrightarrow> stdout s' = stdout s"
  by (auto simp: call_logger_def log_def split: if_splits)

lemma call_logger_without_keyword:
  "call_logger self utc m msg context None s = Inr (log self utc (method_level m) msg context None s)"
  by (simp add: call_logger_def)

lemma try_body_stdout:
  assumes "try_body env s0 = (raised, s1)"
  shows "(raised = None \<longrightarrow> (\<exists>r. stdout s1 = stdout s0 @ [r])) \<and>
         (raised \<noteq> None \<longrightarrow> stdout s1 = stdout s0)"
  using assms unfolding try_body_def Let_def call_logger_without_keyword
  by (auto simp: log_def split: sum.splits if_splits)

lemma handlers_stdout:
  assumes "exc_cls e \<noteq> FileNotFoundError" and "exc_cls e \<noteq> NonException"
  shows "\<exists>r. stdout (snd (handlers env e s)) = stdout s @ [r]"
  using assms
  by (cases e) (auto simp: handlers_def call_logger_def log_def)

lemma main_writes_record_otherwise:
  assumes "try_body env s0 = (raised, s1)"
    and "\<And>e. raised = Some e \<Longrightarrow> exc_cls e \<noteq> FileNotFoundError \<and> exc_cls e \<noteq> NonException"
  shows "\<exists>r. stdout (fst (main env s0)) = stdout s0 @ [r]"
proof (cases raised)
  case None
  then show ?thesis
    using assms(1) try_body_stdout [OF assms(1)] by (simp add: main_def)
next
  case (Some e)
  then have "stdout s1 = stdout s0"
    using try_body_stdout [OF assms(1)] by simp
  moreover have "\<exists>r. stdout (snd (handlers env e s1)) = stdout s1 @ [r]"
    using assms(2) [OF Some] by (intro handlers_stdout) simp_all
  ultimately show ?thesis
    using assms(1) Some by (auto simp: main_def split: prod.splits)
qed

text \<open>
  Claim C7 (not met by the code). When the input is a JSON object and \<open>load_rules\<close>
  raises \<open>FileNotFoundError\<close>, the handler calls \<open>logger.warning\<close> with the
  keyword \<open>error=\<close>, which \<open>StructuredLogger.warning\<close> does not declare. The
  \<open>TypeError\<close> leaves the handler before its \<open>print\<close>, so nothing is written
  to stdout or stderr; the \<open>finally\<close> clause still ends the process with exit
  status 0.
\<close>

theorem main_missing_config_writes_nothing:
  assumes "stdin_json env = Inr (JDict d)"
    and "load_rules env (event_of (case map_of d ''tool_name'' of Some v \<Rightarrow> v | None \<Rightarrow> JStr []))
          = Inl (Exn FileNotFoundError m)"
  shows "main env s0 = (s0, Exit 0)"
proof -
  have "try_body env s0 = (Some (Exn FileNotFoundError m), s0)"
    using assms by (simp add: try_body_def json_get_def logger_debug_silent Let_def)
  moreover have "handlers env (Exn FileNotFoundError m) s0 =
      (Some (unexpected_keyword Warning ''error''), s0)"
    by (simp add: handlers_def logger_warning_rejects_error_keyword)
  ultimately show ?thesis
    by (simp add: main_def finally_sys_exit_def)
qed

theorem main_missing_config_writes_nothing_witness:
  "main \<lparr>stdin_json = Inr (JDict [(''tool_name'', JStr ''Bash'')]),
         load_rules = (\<lambda>event. Inl (Exn FileNotFoundError ''No such file or directory'')),
         evaluate_rules = (\<lambda>(rules :: unit list) input_data. Inr []),
         utcnow = ''2026-01-01T00:00:00''\<rparr>
        \<lparr>stdout = [], stderr = []\<rparr>
     = (\<lparr>stdout = [], stderr = []\<rparr>, Exit 0)"
  using main_missing_config_writes_nothing
    [of "\<lparr>stdin_json = Inr (JDict [(''tool_name'', JStr ''Bash'')]),
         load_rules = (\<lambda>event. Inl (Exn FileNotFoundError ''No such file or directory'')),
         evaluate_rules = (\<lambda>(rules :: unit list) input_data. Inr []),
         utcnow = ''2026-01-01T00:00:00''\<rparr>"
        "[(''tool_name'', JStr ''Bash'')]" "''No such file or directory''"
        "\<lparr>stdout = [], stderr = []\<rparr>"]
  by simp

end
